theory Spec2Isabelle
  imports Complex_Main "HOL-Library.Word" "HOL-Library.Char_ord" "HOL-Library.List_Lexorder"
begin

section \<open>Traffic accidents: merge, reprojection and export\<close>

text \<open>
  A shallow embedding of \<^verbatim>\<open>manage_csv.py\<close>, \<^verbatim>\<open>csv_to_json.py\<close> and
  \<^verbatim>\<open>data/fix_encoding.py\<close>. Library calls (pandas' CSV reader, its numeric coercion,
  pyproj's transformer, Python's codecs, \<^verbatim>\<open>float\<close>, \<^verbatim>\<open>int\<close>, \<^verbatim>\<open>json\<close>, \<^verbatim>\<open>gzip\<close>) are
  parameters of the functions that call them; a call that raises returns \<open>None\<close> or \<open>Inl\<close>.
  Floating-point numbers are abstracted to the reals, with NaN as a value of its own and,
  for the floats that the exporter parses, the two infinities.
\<close>

subsection \<open>Configuration and year selection (manage\_csv.py, lines 16-26 and 100-106)\<close>

record config =
  START_YEAR :: "int option"
  END_YEAR :: "int option"
  SPECIFIC_YEARS :: "int list"

text \<open>The constants as the file sets them (lines 22, 23 and 26).\<close>

definition default_config :: config where
  "default_config = \<lparr>START_YEAR = Some 2015, END_YEAR = Some 2024, SPECIFIC_YEARS = []\<rparr>"

text \<open>
  Lines 101-106 of \<^verbatim>\<open>process_file\<close>: three independent early returns. A list is true in
  Python when it is not empty.
\<close>

definition skip_by_year :: "config \<Rightarrow> int \<Rightarrow> bool" where
  "skip_by_year cfg year =
     (if SPECIFIC_YEARS cfg \<noteq> [] \<and> year \<notin> set (SPECIFIC_YEARS cfg) then True
      else if (case START_YEAR cfg of None \<Rightarrow> False | Some s \<Rightarrow> year < s) then True
      else if (case END_YEAR cfg of None \<Rightarrow> False | Some e \<Rightarrow> year > e) then True
      else False)"

text \<open>
  Lines 236-243 of the main block: the banner that tells the operator which years will be
  processed. \<^verbatim>\<open>START_YEAR or END_YEAR\<close> tests truth, so \<open>None\<close> and \<open>0\<close> both count as
  unset; an unset bound is printed as the literal 1995 or 2024, here \<open>None\<close>.
\<close>

datatype banner = Years_list "int list" | Years_range "int option" "int option" | Years_all

definition int_truthy :: "int option \<Rightarrow> bool" where
  "int_truthy v = (case v of None \<Rightarrow> False | Some n \<Rightarrow> n \<noteq> 0)"

definition year_banner :: "config \<Rightarrow> banner" where
  "year_banner cfg =
     (if SPECIFIC_YEARS cfg \<noteq> [] then Years_list (sort (SPECIFIC_YEARS cfg))
      else if int_truthy (START_YEAR cfg) \<or> int_truthy (END_YEAR cfg) then
        Years_range (if int_truthy (START_YEAR cfg) then START_YEAR cfg else None)
                    (if int_truthy (END_YEAR cfg) then END_YEAR cfg else None)
      else Years_all)"

subsection \<open>Year from a file name (lines 30-35)\<close>

definition is_digit :: "char \<Rightarrow> bool" where
  "is_digit c = (48 \<le> (of_char c :: nat) \<and> (of_char c :: nat) \<le> 57)"

definition digit_val :: "char \<Rightarrow> int" where
  "digit_val c = int (of_char c) - 48"

text \<open>The pattern \<^verbatim>\<open>pn(\d{4})\<close> matched at the head of a string.\<close>

fun match_pn4 :: "string \<Rightarrow> int option" where
  "match_pn4 (p # n # a # b # c # d # rest) =
     (if p = CHR ''p'' \<and> n = CHR ''n'' \<and> is_digit a \<and> is_digit b \<and> is_digit c \<and> is_digit d
      then Some (1000 * digit_val a + 100 * digit_val b + 10 * digit_val c + digit_val d)
      else None)"
| "match_pn4 s = None"

text \<open>\<^verbatim>\<open>re.search\<close> takes the leftmost match.\<close>

fun get_year_from_filename :: "string \<Rightarrow> int option" where
  "get_year_from_filename [] = None"
| "get_year_from_filename (c # cs) =
     (case match_pn4 (c # cs) of Some y \<Rightarrow> Some y | None \<Rightarrow> get_year_from_filename cs)"

subsection \<open>Ordered encoding fallback\<close>

type_synonym bytes = "8 word list"

text \<open>
  Both the loader (lines 113-119) and the encoding fixer (fix\_encoding.py, lines 27-36) run
  the same loop: try each candidate in order, keep the first attempt that does not raise,
  stop. \<open>attempt enc = None\<close> stands for an attempt that raised.
\<close>

fun first_success :: "(string \<Rightarrow> 'a option) \<Rightarrow> string list \<Rightarrow> (string \<times> 'a) option" where
  "first_success attempt [] = None"
| "first_success attempt (enc # encs) =
     (case attempt enc of Some v \<Rightarrow> Some (enc, v) | None \<Rightarrow> first_success attempt encs)"

text \<open>manage\_csv.py, line 114.\<close>

definition loader_encodings :: "string list" where
  "loader_encodings = [''utf-8'', ''iso-8859-2'', ''windows-1250'', ''cp1250'']"

text \<open>fix\_encoding.py, lines 20-25.\<close>

definition encodings_to_try :: "string list" where
  "encodings_to_try = [''utf-8'', ''windows-1250'', ''iso-8859-2'', ''cp1250'']"

datatype fix_msg = Could_not_decode | Converted_from string

text \<open>
  \<^verbatim>\<open>fix_encoding_simple\<close>: \<open>decode enc raw\<close> is \<^verbatim>\<open>raw_data.decode(encoding)\<close>, \<open>encode_utf8\<close>
  is the write in UTF-8. The result is the new content of the output file (\<open>None\<close>: the
  file is not written) and the line printed.
\<close>

definition fix_encoding_simple ::
  "(string \<Rightarrow> bytes \<Rightarrow> 'text option) \<Rightarrow> ('text \<Rightarrow> bytes) \<Rightarrow> bytes \<Rightarrow> bytes option \<times> fix_msg" where
  "fix_encoding_simple decode encode_utf8 raw_data =
     (case first_success (\<lambda>enc. decode enc raw_data) encodings_to_try of
        None \<Rightarrow> (None, Could_not_decode)
      | Some (used_encoding, text) \<Rightarrow> (Some (encode_utf8 text), Converted_from used_encoding))"

subsection \<open>Data frames\<close>

text \<open>
  A cell of a data frame is missing (NaN), a number or a text. A row gives every column
  name its cell; a frame lists its columns and rows. Reading a column that is not in
  \<open>columns\<close> raises in pandas; the code guards each such read with a membership test.
\<close>

datatype cell = NaN | Num real | Str string

type_synonym row = "string \<Rightarrow> cell"

record frame =
  columns :: "string list"
  rows :: "row list"

text \<open>\<^verbatim>\<open>df[c] = v\<close> for a scalar \<open>v\<close>: a new column goes last.\<close>

definition set_column :: "string \<Rightarrow> cell \<Rightarrow> frame \<Rightarrow> frame" where
  "set_column c v df =
     \<lparr>columns = (if c \<in> set (columns df) then columns df else columns df @ [c]),
      rows = map (\<lambda>r. r(c := v)) (rows df)\<rparr>"

text \<open>
  \<^verbatim>\<open>df.loc[mask, c] = values\<close>: the rows selected by the mask take the values in order.
  pandas raises ValueError when the number of values is not the number of selected rows.
\<close>

fun loc_rows :: "bool list \<Rightarrow> string \<Rightarrow> real list \<Rightarrow> row list \<Rightarrow> row list" where
  "loc_rows (True # ms) c (v # vs) (r # rs) = r(c := Num v) # loc_rows ms c vs rs"
| "loc_rows (False # ms) c vs (r # rs) = r # loc_rows ms c vs rs"
| "loc_rows ms c vs rs = rs"

definition loc_assign :: "bool list \<Rightarrow> string \<Rightarrow> real list \<Rightarrow> frame \<Rightarrow> string + frame" where
  "loc_assign ms c vs df =
     (if length vs \<noteq> length (filter (\<lambda>m. m) ms) then Inl ''ValueError''
      else Inr (df\<lparr>rows := loc_rows ms c vs (rows df)\<rparr>))"

text \<open>\<^verbatim>\<open>df.dropna(subset=cs)\<close>: a row goes when any of the named cells is missing.\<close>

definition dropna :: "string list \<Rightarrow> frame \<Rightarrow> frame" where
  "dropna subs df = df\<lparr>rows := filter (\<lambda>r. \<forall>c \<in> set subs. r c \<noteq> NaN) (rows df)\<rparr>"

text \<open>
  \<^verbatim>\<open>pd.concat(dfs, ignore_index=True)\<close>: the columns are the union in order of first
  appearance, the rows follow each other in the order of the frames, and a row reads NaN
  in a column its own frame did not have. Each column of the result takes the common type
  of its pieces: an integer column becomes float64 when one of the frames lacks the column
  or holds floats in it, and an integer beyond \<open>2 ^ 53\<close> is rounded then. \<open>cast dfs c v\<close>
  is the cell that the value \<open>v\<close> of column \<open>c\<close> becomes in the result, \<open>v\<close> itself where
  the type of the column does not change.
\<close>

definition reindex :: "string list \<Rightarrow> row \<Rightarrow> row" where
  "reindex cols r = (\<lambda>c. if c \<in> set cols then r c else NaN)"

definition pd_concat :: "(frame list \<Rightarrow> string \<Rightarrow> cell \<Rightarrow> cell) \<Rightarrow> frame list \<Rightarrow> frame" where
  "pd_concat cast dfs =
     \<lparr>columns = fold (\<lambda>c acc. if c \<in> set acc then acc else acc @ [c])
                     (concat (map columns dfs)) [],
      rows = concat (map (\<lambda>df. map (\<lambda>r c. cast dfs c (reindex (columns df) r c)) (rows df)) dfs)\<rparr>"

text \<open>
  \<^verbatim>\<open>df.drop_duplicates(subset=cs)\<close> keeps the first row of each key and drops the later
  ones; missing cells compare equal to each other there. \<open>seen\<close> holds the keys already kept.
\<close>

fun drop_seen :: "('a \<Rightarrow> 'k) \<Rightarrow> 'k list \<Rightarrow> 'a list \<Rightarrow> 'a list" where
  "drop_seen key seen [] = []"
| "drop_seen key seen (r # rs) =
     (if key r \<in> set seen then drop_seen key seen rs
      else r # drop_seen key (key r # seen) rs)"

definition row_key :: "string list \<Rightarrow> row \<Rightarrow> cell list" where
  "row_key subs r = map r subs"

definition drop_duplicates :: "string list \<Rightarrow> frame \<Rightarrow> frame" where
  "drop_duplicates subs df = df\<lparr>rows := drop_seen (row_key subs) [] (rows df)\<rparr>"

subsection \<open>Library calls\<close>

text \<open>
  \<^item> \<open>concat_cast\<close>: the change of column types in \<^verbatim>\<open>pd.concat\<close>, as described there.
  \<^item> \<open>read_csv raw enc\<close>: \<^verbatim>\<open>pd.read_csv(csv_file, sep=';', encoding=enc)\<close> on a file with the
    bytes \<open>raw\<close>; \<open>None\<close> when it raises.
  \<^item> \<open>str_num\<close>: what \<^verbatim>\<open>astype(str)\<close> makes of a number.
  \<^item> \<open>to_numeric\<close>: \<^verbatim>\<open>pd.to_numeric(errors='coerce')\<close> on one text; \<open>None\<close> is NaN.
  \<^item> \<open>transform eastings northings\<close>: lines 78 and 85 together, the transformer from
    EPSG:3794 to EPSG:4326 with \<^verbatim>\<open>always_xy=True\<close> applied to two arrays; the result is
    (longitudes, latitudes), or \<open>Inl\<close> with the message when either call raises. A
    point that pyproj cannot project comes back as infinity, which is a number and not
    NaN; it is not told apart from the other numbers here.
\<close>

record lib =
  concat_cast :: "frame list \<Rightarrow> string \<Rightarrow> cell \<Rightarrow> cell"
  read_csv :: "bytes \<Rightarrow> string \<Rightarrow> frame option"
  str_num :: "real \<Rightarrow> string"
  to_numeric :: "string \<Rightarrow> real option"
  transform :: "real list \<Rightarrow> real list \<Rightarrow> string + (real list \<times> real list)"

subsection \<open>Coordinate conversion (lines 38-94)\<close>

text \<open>\<^verbatim>\<open>str.isspace\<close> on the code points below 256, and \<^verbatim>\<open>str.strip()\<close>.\<close>

definition py_isspace :: "char \<Rightarrow> bool" where
  "py_isspace c =
     (let n = (of_char c :: nat)
      in (9 \<le> n \<and> n \<le> 13) \<or> (28 \<le> n \<and> n \<le> 32) \<or> n = 133 \<or> n = 160)"

definition strip :: "string \<Rightarrow> string" where
  "strip s = rev (dropWhile py_isspace (rev (dropWhile py_isspace s)))"

definition astype_str :: "lib \<Rightarrow> cell \<Rightarrow> string" where
  "astype_str L c = (case c of Str s \<Rightarrow> s | Num x \<Rightarrow> str_num L x | NaN \<Rightarrow> ''nan'')"

text \<open>
  Lines 51-60 on one column: to text and stripped, the empty text and the text of one
  space replaced by NaN, the rest coerced to numbers.
\<close>

definition coerce_column :: "lib \<Rightarrow> cell list \<Rightarrow> real option list" where
  "coerce_column L col =
     (let stripped = map (\<lambda>c. strip (astype_str L c)) col;
          replaced = map (\<lambda>s. if s = [] \<or> s = '' '' then None else Some s) stripped
      in map (\<lambda>v. case v of None \<Rightarrow> None | Some s \<Rightarrow> to_numeric L s) replaced)"

text \<open>Line 63. \<^verbatim>\<open>x != 0\<close> is true of NaN, which \<^verbatim>\<open>notna\<close> then excludes.\<close>

definition valid_mask_of :: "real option list \<Rightarrow> real option list \<Rightarrow> bool list" where
  "valid_mask_of x_coords y_coords =
     map (\<lambda>(x, y). x \<noteq> Some 0 \<and> y \<noteq> Some 0 \<and> x \<noteq> None \<and> y \<noteq> None) (zip x_coords y_coords)"

text \<open>\<^verbatim>\<open>coords[valid_mask].values\<close> (lines 81-82); a selected entry is never NaN.\<close>

fun select_valid :: "bool list \<Rightarrow> real option list \<Rightarrow> real list" where
  "select_valid (True # ms) (Some v # xs) = v # select_valid ms xs"
| "select_valid (m # ms) (x # xs) = select_valid ms xs"
| "select_valid ms xs = []"

text \<open>
  The lines printed, by their content: the start of a file with its year (line 109), no
  encoding read the file (122), the start of the conversion (130), no valid pair (70), the
  caught exception with its message (92), the rows kept and the rows skipped (141, 143),
  the number of rows outside the bounding box (151), the rows of a file without
  coordinate columns (153).
\<close>

datatype msg =
    Processing int
  | Could_not_read
  | Converting
  | No_valid_coordinates
  | Transformation_error string
  | Loaded nat nat
  | Bounds_warning nat
  | Loaded_without_coordinates nat

definition convert_coordinates_batch :: "lib \<Rightarrow> frame \<Rightarrow> int \<Rightarrow> frame \<times> msg list" where
  "convert_coordinates_batch L df year =
     (if ''GeoKoordinataX'' \<notin> set (columns df) \<or> ''GeoKoordinataY'' \<notin> set (columns df)
      then (df, [])
      else
        let x_coords = coerce_column L (map (\<lambda>r. r ''GeoKoordinataX'') (rows df));
            y_coords = coerce_column L (map (\<lambda>r. r ''GeoKoordinataY'') (rows df));
            valid_mask = valid_mask_of x_coords y_coords;
            df1 = set_column ''longitude'' NaN (set_column ''latitude'' NaN df)
        in if length (filter (\<lambda>m. m) valid_mask) = 0 then (df1, [No_valid_coordinates])
           else
             let valid_x = select_valid valid_mask x_coords;
                 valid_y = select_valid valid_mask y_coords
             in case transform L valid_y valid_x of
                  Inl e \<Rightarrow> (df1, [Transformation_error e])
                | Inr (lons, lats) \<Rightarrow>
                    (case loc_assign valid_mask ''longitude'' lons df1 of
                       Inl e \<Rightarrow> (df1, [Transformation_error e])
                     | Inr df2 \<Rightarrow>
                         (case loc_assign valid_mask ''latitude'' lats df2 of
                            Inl e \<Rightarrow> (df2, [Transformation_error e])
                          | Inr df3 \<Rightarrow> (df3, []))))"

subsection \<open>One file (lines 97-159)\<close>

text \<open>A comparison of a column with a number is false where the cell is missing.\<close>

definition cell_lt :: "cell \<Rightarrow> real \<Rightarrow> bool" where
  "cell_lt c b = (case c of Num x \<Rightarrow> x < b | _ \<Rightarrow> False)"

definition cell_gt :: "cell \<Rightarrow> real \<Rightarrow> bool" where
  "cell_gt c b = (case c of Num x \<Rightarrow> x > b | _ \<Rightarrow> False)"

text \<open>Lines 146-149: the rows outside the bounding box of Slovenia.\<close>

definition outside_slovenia :: "row \<Rightarrow> bool" where
  "outside_slovenia r =
     (cell_lt (r ''latitude'') 45 \<or> cell_gt (r ''latitude'') 47 \<or>
      cell_lt (r ''longitude'') 13 \<or> cell_gt (r ''longitude'') 16)"

text \<open>
  \<^verbatim>\<open>process_file\<close> on a file with the bytes \<open>raw\<close>: the frame returned (\<open>None\<close> for
  Python's None) and the lines printed.
\<close>

definition process_file :: "lib \<Rightarrow> config \<Rightarrow> bytes \<Rightarrow> int \<Rightarrow> frame option \<times> msg list" where
  "process_file L cfg raw year =
     (if skip_by_year cfg year then (None, [])
      else case first_success (read_csv L raw) loader_encodings of
        None \<Rightarrow> (None, [Processing year, Could_not_read])
      | Some (encoding, df0) \<Rightarrow>
          let df = set_column ''year'' (Num (of_int year)) df0
          in if ''GeoKoordinataX'' \<in> set (columns df) \<and> ''GeoKoordinataY'' \<in> set (columns df)
             then
               let rows_before = length (rows df);
                   (converted, printed) = convert_coordinates_batch L df year;
                   df' = dropna [''latitude'', ''longitude''] converted;
                   rows_after = length (rows df');
                   rows_skipped = rows_before - rows_after;
                   invalid = filter outside_slovenia (rows df')
               in (Some df',
                   [Processing year, Converting] @ printed @ [Loaded rows_after rows_skipped] @
                   (if length invalid > 0 then [Bounds_warning (length invalid)] else []))
             else (Some df, [Processing year, Loaded_without_coordinates (length (rows df))]))"

subsection \<open>All files (lines 162-225)\<close>

text \<open>
  The data folder as the run finds it: whether it exists, the names in it, and the bytes
  of each file. A path is the folder joined with a name, so \<^verbatim>\<open>os.path.basename\<close> of a
  path is the name, and paths sort as their names do.
\<close>

record world =
  folder_exists :: bool
  listing :: "string list"
  file_bytes :: "string \<Rightarrow> bytes"

text \<open>\<^verbatim>\<open>glob.glob\<close> with the pattern \<^verbatim>\<open>pn*.csv\<close> (lines 170-171).\<close>

definition glob_pn_csv :: "string list \<Rightarrow> string list" where
  "glob_pn_csv names =
     filter (\<lambda>n. 6 \<le> length n \<and> take 2 n = ''pn'' \<and> drop (length n - 4) n = ''.csv'') names"

text \<open>
  The loop of lines 182-193: \<^verbatim>\<open>dfs\<close> and \<^verbatim>\<open>years_processed\<close> grow together, so the result
  pairs each frame with its year.
\<close>

fun load_files :: "lib \<Rightarrow> config \<Rightarrow> (string \<Rightarrow> bytes) \<Rightarrow> string list \<Rightarrow> (frame \<times> int) list" where
  "load_files L cfg bytes_of [] = []"
| "load_files L cfg bytes_of (csv_file # csv_files) =
     (case get_year_from_filename csv_file of
        None \<Rightarrow> load_files L cfg bytes_of csv_files
      | Some year \<Rightarrow>
          (case fst (process_file L cfg (bytes_of csv_file) year) of
             None \<Rightarrow> load_files L cfg bytes_of csv_files
           | Some df \<Rightarrow> (df, year) # load_files L cfg bytes_of csv_files))"

text \<open>Lines 203-207: concatenation, then the guarded removal of duplicates.\<close>

definition merge_frames :: "lib \<Rightarrow> frame list \<Rightarrow> frame" where
  "merge_frames L dfs =
     (let merged = pd_concat (concat_cast L) dfs
      in if ''ZaporednaStevilkaPN'' \<in> set (columns merged) \<and> ''year'' \<in> set (columns merged)
         then drop_duplicates [''year'', ''ZaporednaStevilkaPN''] merged
         else merged)"

text \<open>
  \<^verbatim>\<open>merge_all_files\<close>: the value returned and the frame written to the output file
  (\<open>None\<close>: nothing is written).
\<close>

definition merge_all_files :: "lib \<Rightarrow> config \<Rightarrow> world \<Rightarrow> bool \<times> frame option" where
  "merge_all_files L cfg w =
     (if \<not> folder_exists w then (False, None)
      else
        let csv_files = sort (glob_pn_csv (listing w))
        in if csv_files = [] then (False, None)
           else
             let dfs = map fst (load_files L cfg (file_bytes w) csv_files)
             in if dfs = [] then (False, None)
                else (True, Some (merge_frames L dfs)))"

subsection \<open>Export (csv\_to\_json.py, lines 13-66)\<close>

text \<open>
  A row as \<^verbatim>\<open>csv.DictReader\<close> yields it for a line that has one field for each column of
  the header, as every line that \<^verbatim>\<open>to_csv\<close> writes has: a text for each column. Then
  \<^verbatim>\<open>row.get(k, '')\<close> is the text of the column, or the empty text when the file has no
  such column.
\<close>

type_synonym csv_row = "string \<rightharpoonup> string"

definition row_get :: "csv_row \<Rightarrow> string \<Rightarrow> string" where
  "row_get r k = (case r k of None \<Rightarrow> [] | Some v \<Rightarrow> v)"

text \<open>
  A Python float: NaN, the two infinities, or a number. \<^verbatim>\<open>float\<close> parses the texts
  \<^verbatim>\<open>nan\<close>, \<^verbatim>\<open>inf\<close> and \<^verbatim>\<open>-inf\<close> as well as the numerals. Every float but zero is true,
  NaN and the infinities too.
\<close>

datatype pyfloat = Float_nan | Float_inf | Float_neg_inf | Float real

definition float_truthy :: "pyfloat \<Rightarrow> bool" where
  "float_truthy f = (case f of Float x \<Rightarrow> x \<noteq> 0 | _ \<Rightarrow> True)"

text \<open>
  \<^verbatim>\<open>round(x, 6)\<close>: the closest multiple of one millionth, the even one of two equally
  close.
\<close>

definition round6 :: "real \<Rightarrow> real" where
  "round6 x =
     (let s = x * 1000000; f = \<lfloor>s\<rfloor>; d = s - of_int f
      in of_int (if d < 1 / 2 then f else if d > 1 / 2 then f + 1
                 else if even f then f else f + 1) / 1000000)"

definition py_round6 :: "pyfloat \<Rightarrow> pyfloat" where
  "py_round6 f = (case f of Float x \<Rightarrow> Float (round6 x) | _ \<Rightarrow> f)"

datatype json = JFloat pyfloat | JInt int | JStr string

type_synonym json_object = "(string \<times> json) list"

text \<open>
  The body of the loop, lines 28-51. \<open>py_float\<close> and \<open>py_int\<close> are Python's \<^verbatim>\<open>float\<close> and
  \<^verbatim>\<open>int\<close> on a text, \<open>None\<close> when they raise ValueError, which skips the row.
\<close>

definition export_row ::
  "(string \<Rightarrow> pyfloat option) \<Rightarrow> (string \<Rightarrow> int option) \<Rightarrow> csv_row \<Rightarrow> json_object option" where
  "export_row py_float py_int r =
     (case py_float (row_get r ''latitude'') of
        None \<Rightarrow> None
      | Some lat \<Rightarrow>
     (case py_float (row_get r ''longitude'') of
        None \<Rightarrow> None
      | Some lon \<Rightarrow>
     (case py_int (row_get r ''year'') of
        None \<Rightarrow> None
      | Some year \<Rightarrow>
          if float_truthy lat \<and> float_truthy lon then
            Some [(''latitude'', JFloat (py_round6 lat)),
                  (''longitude'', JFloat (py_round6 lon)),
                  (''year'', JInt year),
                  (''KlasifikacijaNesrece'', JStr (row_get r ''KlasifikacijaNesrece'')),
                  (''TipNesrece'', JStr (row_get r ''TipNesrece'')),
                  (''VremenskeOkoliscine'', JStr (row_get r ''VremenskeOkoliscine'')),
                  (''StanjePrometa'', JStr (row_get r ''StanjePrometa'')),
                  (''StanjeVozisca'', JStr (row_get r ''StanjeVozisca'')),
                  (''VNaselju'', JStr (row_get r ''VNaselju'')),
                  (''TekstCesteNaselja'', JStr (row_get r ''TekstCesteNaselja'')),
                  (''DatumPN'', JStr (row_get r ''DatumPN'')),
                  (''UraPN'', JStr (row_get r ''UraPN''))]
          else None)))"

text \<open>The list \<^verbatim>\<open>data\<close> after the loop.\<close>

definition export_data ::
  "(string \<Rightarrow> pyfloat option) \<Rightarrow> (string \<Rightarrow> int option) \<Rightarrow> csv_row list \<Rightarrow> json_object list" where
  "export_data py_float py_int csv_rows = List.map_filter (export_row py_float py_int) csv_rows"


section \<open>Properties\<close>

subsection \<open>Year selection\<close>

text \<open>
  C3. The claim: a file whose year is in a non-empty \<^verbatim>\<open>SPECIFIC_YEARS\<close> is processed whatever
  the range says; with \<^verbatim>\<open>SPECIFIC_YEARS = [2010]\<close> and the range 2015 to 2020 only the file
  of 2010 is processed. The code at that configuration: \<^verbatim>\<open>process_file\<close> skips the file of
  2010 (it returns None before printing anything), because the range tests of lines
  103-106 run after the test of the explicit years and not instead of it; the banner of
  the main block announces the years [2010] all the same.
\<close>

theorem specific_year_outside_range_skipped:
  "skip_by_year \<lparr>START_YEAR = Some 2015, END_YEAR = Some 2020, SPECIFIC_YEARS = [2010]\<rparr> 2010
   \<and> process_file L \<lparr>START_YEAR = Some 2015, END_YEAR = Some 2020, SPECIFIC_YEARS = [2010]\<rparr> raw 2010
       = (None, [])
   \<and> year_banner \<lparr>START_YEAR = Some 2015, END_YEAR = Some 2020, SPECIFIC_YEARS = [2010]\<rparr>
       = Years_list [2010]"
  by (simp add: skip_by_year_def process_file_def year_banner_def)

subsection \<open>Export\<close>

lemma export_data_append:
  "export_data pf pin (xs @ ys) = export_data pf pin xs @ export_data pf pin ys"
  by (simp add: export_data_def List.map_filter_def)

lemma export_data_Cons:
  "export_data pf pin (r # rs) =
     (case export_row pf pin r of None \<Rightarrow> export_data pf pin rs
      | Some j \<Rightarrow> j # export_data pf pin rs)"
  by (simp add: export_data_def List.map_filter_def split: option.splits)

text \<open>
  C10. A row whose latitude or longitude field parses to the float 0.0 yields no object:
  the export of a file is the same with the row and without it.
\<close>

theorem zero_coordinate_row_not_exported:
  assumes "py_float (row_get r ''latitude'') = Some (Float 0)
           \<or> py_float (row_get r ''longitude'') = Some (Float 0)"
  shows "export_row py_float py_int r = None
         \<and> export_data py_float py_int (before @ r # after)
             = export_data py_float py_int (before @ after)"
proof -
  have "export_row py_float py_int r = None"
    using assms by (auto simp: export_row_def float_truthy_def split: option.splits)
  then show ?thesis
    by (simp add: export_data_append export_data_Cons)
qed

theorem zero_coordinate_row_not_exported_witness:
  "(\<lambda>s. if s = ''0.0'' then Some (Float 0) else if s = ''14.5'' then Some (Float 14.5) else None)
      (row_get [''latitude'' \<mapsto> ''0.0'', ''longitude'' \<mapsto> ''14.5'', ''year'' \<mapsto> ''2020''] ''latitude'')
     = Some (Float 0)
   \<and> export_data
        (\<lambda>s. if s = ''0.0'' then Some (Float 0) else if s = ''14.5'' then Some (Float 14.5) else None)
        (\<lambda>s. if s = ''2020'' then Some 2020 else None)
        ([] @ [''latitude'' \<mapsto> ''0.0'', ''longitude'' \<mapsto> ''14.5'', ''year'' \<mapsto> ''2020''] # [])
     = []"
  using zero_coordinate_row_not_exported
    [of "\<lambda>s. if s = ''0.0'' then Some (Float 0) else if s = ''14.5'' then Some (Float 14.5) else None"
        "[''latitude'' \<mapsto> ''0.0'', ''longitude'' \<mapsto> ''14.5'', ''year'' \<mapsto> ''2020'']"
        "\<lambda>s. if s = ''2020'' then Some 2020 else None" "[]" "[]"]
  by (simp add: row_get_def export_data_def List.map_filter_def)

subsection \<open>Encoding fallback\<close>

lemma process_file_None_iff:
  "\<not> skip_by_year cfg year \<Longrightarrow>
   (fst (process_file L cfg raw year) = None) = (first_success (read_csv L raw) loader_encodings = None)"
  by (simp add: process_file_def Let_def split: option.splits prod.splits)

lemma first_success_None_iff:
  "(first_success f encs = None) = (\<forall>e \<in> set encs. f e = None)"
  by (induction encs) (auto split: option.splits)

lemma fix_selected:
  "(case snd (fix_encoding_simple decode enc8 raw) of
             Converted_from e \<Rightarrow> Some e | Could_not_decode \<Rightarrow> None)
   = map_option fst (first_success (\<lambda>enc. decode enc raw) encodings_to_try)"
  by (simp add: fix_encoding_simple_def split: option.splits)

lemma fix_None_iff:
  "(fst (fix_encoding_simple decode enc8 raw) = None)
   = (first_success (\<lambda>enc. decode enc raw) encodings_to_try = None)"
  by (simp add: fix_encoding_simple_def split: option.splits)


lemma first_success_four:
  "map_option fst (first_success f [a, b, c, d]) =
     (if f a \<noteq> None then Some a else if f b \<noteq> None then Some b
      else if f c \<noteq> None then Some c else if f d \<noteq> None then Some d else None)"
  by (auto split: option.splits)

text \<open>
  C9, as stated: the fixer and the loader use the same ordered list, so they select the
  same encoding or both fail. The lists differ in the order of their second and third
  entries. On the one byte E8, which is not UTF-8 and which both ISO-8859-2 and
  Windows-1250 decode, the loader accepts ISO-8859-2 (the reader here returns a frame that
  names the encoding it was given) and the fixer Windows-1250.
\<close>

theorem encoding_orders_differ_counterexample:
  "fst (process_file
          \<lparr>concat_cast = (\<lambda>dfs c v. v), read_csv = (\<lambda>raw enc. if enc = ''utf-8'' then None else Some \<lparr>columns = [enc], rows = []\<rparr>),
           str_num = (\<lambda>x. []), to_numeric = (\<lambda>s. None), transform = (\<lambda>es ns. Inr (es, ns))\<rparr>
          default_config [232] 2020)
     = Some \<lparr>columns = [''iso-8859-2'', ''year''], rows = []\<rparr>
   \<and> fix_encoding_simple (\<lambda>enc raw. if enc = ''utf-8'' then None else Some raw) (\<lambda>t. t) [232]
     = (Some [232], Converted_from ''windows-1250'')"
  by (simp add: process_file_def skip_by_year_def default_config_def loader_encodings_def
      set_column_def fix_encoding_simple_def encodings_to_try_def)

text \<open>
  C9, amended. Where each candidate encoding succeeds for the loader exactly when it
  succeeds for the fixer: the two lists hold the same candidates and both start with
  UTF-8; a file is unreadable for the loader exactly when the fixer cannot decode it; the
  two select the same encoding whenever UTF-8 succeeds or one of ISO-8859-2 and
  Windows-1250 fails; and when UTF-8 fails and both of these succeed, the fixer selects
  Windows-1250 and the loader ISO-8859-2.
\<close>

theorem encoding_fallback_agreement:
  assumes "\<forall>enc \<in> set loader_encodings. (read_csv L raw enc = None) = (decode enc raw = None)"
  shows "set encodings_to_try = set loader_encodings
     \<and> hd encodings_to_try = hd loader_encodings
     \<and> (\<not> skip_by_year cfg year \<longrightarrow>
          (fst (process_file L cfg raw year) = None) = (fst (fix_encoding_simple decode enc8 raw) = None))
     \<and> (read_csv L raw ''utf-8'' \<noteq> None \<or> read_csv L raw ''iso-8859-2'' = None
          \<or> read_csv L raw ''windows-1250'' = None \<longrightarrow>
          (case snd (fix_encoding_simple decode enc8 raw) of
             Converted_from e \<Rightarrow> Some e | Could_not_decode \<Rightarrow> None)
          = map_option fst (first_success (read_csv L raw) loader_encodings))
     \<and> (read_csv L raw ''utf-8'' = None \<and> read_csv L raw ''iso-8859-2'' \<noteq> None
          \<and> read_csv L raw ''windows-1250'' \<noteq> None \<longrightarrow>
          (case snd (fix_encoding_simple decode enc8 raw) of
             Converted_from e \<Rightarrow> Some e | Could_not_decode \<Rightarrow> None) = Some ''windows-1250''
          \<and> map_option fst (first_success (read_csv L raw) loader_encodings) = Some ''iso-8859-2'')"
proof -
  have u: "(decode ''utf-8'' raw = None) = (read_csv L raw ''utf-8'' = None)"
    and i: "(decode ''iso-8859-2'' raw = None) = (read_csv L raw ''iso-8859-2'' = None)"
    and w: "(decode ''windows-1250'' raw = None) = (read_csv L raw ''windows-1250'' = None)"
    and c: "(decode ''cp1250'' raw = None) = (read_csv L raw ''cp1250'' = None)"
    using assms by (simp_all add: loader_encodings_def)
  have sets: "set encodings_to_try = set loader_encodings"
    by (auto simp: loader_encodings_def encodings_to_try_def)
  have heads: "hd encodings_to_try = hd loader_encodings"
    by (simp add: loader_encodings_def encodings_to_try_def)
  have fails: "(first_success (read_csv L raw) loader_encodings = None)
      = (first_success (\<lambda>enc. decode enc raw) encodings_to_try = None)"
    unfolding first_success_None_iff sets using assms by simp
  have loader: "map_option fst (first_success (read_csv L raw) loader_encodings) =
     (if read_csv L raw ''utf-8'' \<noteq> None then Some ''utf-8''
      else if read_csv L raw ''iso-8859-2'' \<noteq> None then Some ''iso-8859-2''
      else if read_csv L raw ''windows-1250'' \<noteq> None then Some ''windows-1250''
      else if read_csv L raw ''cp1250'' \<noteq> None then Some ''cp1250'' else None)"
    unfolding loader_encodings_def by (rule first_success_four)
  have fixer: "map_option fst (first_success (\<lambda>enc. decode enc raw) encodings_to_try) =
     (if read_csv L raw ''utf-8'' \<noteq> None then Some ''utf-8''
      else if read_csv L raw ''windows-1250'' \<noteq> None then Some ''windows-1250''
      else if read_csv L raw ''iso-8859-2'' \<noteq> None then Some ''iso-8859-2''
      else if read_csv L raw ''cp1250'' \<noteq> None then Some ''cp1250'' else None)"
    unfolding encodings_to_try_def first_success_four u i w c by (rule refl)
  show ?thesis
    unfolding fix_selected fix_None_iff loader fixer
    using sets heads fails by (simp add: process_file_None_iff)
qed

theorem encoding_fallback_agreement_witness:
  "fix_encoding_simple (\<lambda>enc raw. Some raw) (\<lambda>t. t) [65] = (Some [65], Converted_from ''utf-8'')
   \<and> map_option fst (first_success
        (read_csv \<lparr>concat_cast = (\<lambda>dfs c v. v), read_csv = (\<lambda>raw enc. Some \<lparr>columns = [enc], rows = []\<rparr>),
           str_num = (\<lambda>x. []), to_numeric = (\<lambda>s. None), transform = (\<lambda>es ns. Inr (es, ns))\<rparr> [65])
        loader_encodings) = Some ''utf-8''
   \<and> fst (process_file
        \<lparr>concat_cast = (\<lambda>dfs c v. v), read_csv = (\<lambda>raw enc. Some \<lparr>columns = [enc], rows = []\<rparr>),
           str_num = (\<lambda>x. []), to_numeric = (\<lambda>s. None), transform = (\<lambda>es ns. Inr (es, ns))\<rparr>
        default_config [65] 2020) = Some \<lparr>columns = [''utf-8'', ''year''], rows = []\<rparr>"
  using encoding_fallback_agreement
    [of "\<lparr>concat_cast = (\<lambda>dfs c v. v), read_csv = (\<lambda>raw enc. Some \<lparr>columns = [enc], rows = []\<rparr>),
           str_num = (\<lambda>x. []), to_numeric = (\<lambda>s. None), transform = (\<lambda>es ns. Inr (es, ns))\<rparr>"
        "[65]" "\<lambda>enc raw. Some raw" default_config 2020 "\<lambda>t. t"]
  by (simp add: loader_encodings_def encodings_to_try_def fix_encoding_simple_def
      process_file_def skip_by_year_def default_config_def set_column_def)

subsection \<open>Total failure\<close>

lemma load_files_nothing:
  "\<forall>f \<in> set fs. \<forall>y. get_year_from_filename f = Some y \<longrightarrow> fst (process_file L cfg (b f) y) = None
   \<Longrightarrow> load_files L cfg b fs = []"
  by (induction fs) (auto split: option.splits)

text \<open>
  C5. When the data folder is missing, or no name in it matches \<^verbatim>\<open>pn*.csv\<close>, or every
  matching file either has no year in its name or is not loaded by \<^verbatim>\<open>process_file\<close>,
  \<^verbatim>\<open>merge_all_files\<close> returns False and writes nothing.
\<close>

theorem merge_fails_when_nothing_loads:
  assumes "\<not> folder_exists w \<or> glob_pn_csv (listing w) = []
     \<or> (\<forall>f \<in> set (glob_pn_csv (listing w)). \<forall>y. get_year_from_filename f = Some y \<longrightarrow>
           fst (process_file L cfg (file_bytes w f) y) = None)"
  shows "merge_all_files L cfg w = (False, None)"
proof -
  have "load_files L cfg (file_bytes w) (sort (glob_pn_csv (listing w))) = []"
    if "\<forall>f \<in> set (glob_pn_csv (listing w)). \<forall>y. get_year_from_filename f = Some y \<longrightarrow>
           fst (process_file L cfg (file_bytes w f) y) = None"
    using that by (intro load_files_nothing) simp
  then show ?thesis
    using assms by (auto simp: merge_all_files_def Let_def)
qed

theorem merge_fails_when_nothing_loads_witness:
  "glob_pn_csv [''pn2020.csv'', ''notes.txt''] = [''pn2020.csv'']
   \<and> get_year_from_filename ''pn2020.csv'' = Some 2020
   \<and> process_file \<lparr>concat_cast = (\<lambda>dfs c v. v), read_csv = (\<lambda>raw enc. None), str_num = (\<lambda>x. []), to_numeric = (\<lambda>s. None),
          transform = (\<lambda>es ns. Inr (es, ns))\<rparr> default_config [] 2020
       = (None, [Processing 2020, Could_not_read])
   \<and> merge_all_files \<lparr>concat_cast = (\<lambda>dfs c v. v), read_csv = (\<lambda>raw enc. None), str_num = (\<lambda>x. []), to_numeric = (\<lambda>s. None),
          transform = (\<lambda>es ns. Inr (es, ns))\<rparr> default_config
        \<lparr>folder_exists = True, listing = [''pn2020.csv'', ''notes.txt''], file_bytes = (\<lambda>n. [])\<rparr>
       = (False, None)"
  using merge_fails_when_nothing_loads
    [of "\<lparr>folder_exists = True, listing = [''pn2020.csv'', ''notes.txt''], file_bytes = (\<lambda>n. [])\<rparr>"
        "\<lparr>concat_cast = (\<lambda>dfs c v. v), read_csv = (\<lambda>raw enc. None), str_num = (\<lambda>x. []), to_numeric = (\<lambda>s. None),
          transform = (\<lambda>es ns. Inr (es, ns))\<rparr>" default_config]
  by (simp add: glob_pn_csv_def is_digit_def digit_val_def process_file_def skip_by_year_def
      default_config_def loader_encodings_def)

subsection \<open>Frames, loading and duplicates\<close>

















subsection \<open>Coordinate conversion\<close>

lemma length_coerce_column: "length (coerce_column L col) = length col"
  by (simp add: coerce_column_def)

lemma coerce_column_nth:
  "i < length col \<Longrightarrow>
   coerce_column L col ! i =
     (if strip (astype_str L (col ! i)) = [] \<or> strip (astype_str L (col ! i)) = '' '' then None
      else to_numeric L (strip (astype_str L (col ! i))))"
  by (simp add: coerce_column_def)

lemma length_valid_mask_of:
  "length (valid_mask_of xs ys) = min (length xs) (length ys)"
  by (simp add: valid_mask_of_def)

lemma valid_mask_of_nth:
  "i < length xs \<Longrightarrow> i < length ys \<Longrightarrow>
   valid_mask_of xs ys ! i = (\<exists>x y. xs ! i = Some x \<and> ys ! i = Some y \<and> x \<noteq> 0 \<and> y \<noteq> 0)"
  by (auto simp: valid_mask_of_def)

lemma length_loc_rows: "length (loc_rows ms c vs rs) = length rs"
  by (induction ms c vs rs rule: loc_rows.induct) simp_all

lemma loc_rows_other:
  "c' \<noteq> c \<Longrightarrow> i < length rs \<Longrightarrow> (loc_rows ms c vs rs ! i) c' = (rs ! i) c'"
proof (induction ms c vs rs arbitrary: i rule: loc_rows.induct)
  case (1 ms c v vs r rs)
  then show ?case by (cases i) simp_all
next
  case (2 ms c vs r rs)
  then show ?case by (cases i) simp_all
qed simp_all

lemma loc_rows_unselected:
  "i < length rs \<Longrightarrow> i < length ms \<Longrightarrow> \<not> ms ! i \<Longrightarrow> loc_rows ms c vs rs ! i = rs ! i"
proof (induction ms c vs rs arbitrary: i rule: loc_rows.induct)
  case (1 ms c v vs r rs)
  then show ?case by (cases i) simp_all
next
  case (2 ms c vs r rs)
  then show ?case by (cases i) simp_all
qed simp_all

lemma loc_rows_selected:
  "i < length rs \<Longrightarrow> i < length ms \<Longrightarrow> ms ! i \<Longrightarrow>
   length (filter (\<lambda>m. m) ms) \<le> length vs \<Longrightarrow>
   loc_rows ms c vs rs ! i = (rs ! i)(c := Num (vs ! length (filter (\<lambda>m. m) (take i ms))))"
proof (induction ms c vs rs arbitrary: i rule: loc_rows.induct)
  case (1 ms c v vs r rs)
  then show ?case by (cases i) simp_all
next
  case (2 ms c vs r rs)
  then show ?case by (cases i) simp_all
qed simp_all

lemma select_valid_length:
  "list_all2 (\<lambda>m x. m \<longrightarrow> x \<noteq> None) ms xs \<Longrightarrow>
   length (select_valid ms xs) = length (filter (\<lambda>m. m) ms)"
proof (induction rule: list_all2_induct)
  case Nil
  then show ?case by simp
next
  case (Cons m ms x xs)
  then show ?case by (cases m; cases x) simp_all
qed

lemma select_valid_nth:
  "list_all2 (\<lambda>m x. m \<longrightarrow> x \<noteq> None) ms xs \<Longrightarrow> i < length ms \<Longrightarrow> ms ! i \<Longrightarrow>
   xs ! i = Some v \<Longrightarrow> select_valid ms xs ! length (filter (\<lambda>m. m) (take i ms)) = v"
proof (induction arbitrary: i rule: list_all2_induct)
  case Nil
  then show ?case by simp
next
  case (Cons m ms x xs)
  show ?case
  proof (cases i)
    case 0
    with Cons.prems show ?thesis by (cases m) simp_all
  next
    case (Suc j)
    with Cons.prems have "select_valid ms xs ! length (filter (\<lambda>m. m) (take j ms)) = v"
      by (intro Cons.IH) simp_all
    with Suc Cons.hyps show ?thesis by (cases m; cases x) simp_all
  qed
qed

lemma valid_mask_all2_left:
  "length xs = length ys \<Longrightarrow> list_all2 (\<lambda>m x. m \<longrightarrow> x \<noteq> None) (valid_mask_of xs ys) xs"
  by (auto simp: list_all2_conv_all_nth length_valid_mask_of valid_mask_of_nth)

lemma valid_mask_all2_right:
  "length xs = length ys \<Longrightarrow> list_all2 (\<lambda>m y. m \<longrightarrow> y \<noteq> None) (valid_mask_of xs ys) ys"
  by (auto simp: list_all2_conv_all_nth length_valid_mask_of valid_mask_of_nth)

lemma count_take_less:
  "i < length ms \<Longrightarrow> ms ! i \<Longrightarrow>
   length (filter (\<lambda>m. m) (take i ms)) < length (filter (\<lambda>m. m) ms)"
proof -
  assume i: "i < length ms" and m: "ms ! i"
  have "ms = take i ms @ ms ! i # drop (Suc i) ms"
    using i by (simp add: id_take_nth_drop)
  then have "filter (\<lambda>m. m) ms = filter (\<lambda>m. m) (take i ms) @ ms ! i # filter (\<lambda>m. m) (drop (Suc i) ms)"
    using m by (metis filter.simps(2) filter_append)
  then have "length (filter (\<lambda>m. m) ms) = length (filter (\<lambda>m. m) (take i ms)) + 1 + length (filter (\<lambda>m. m) (drop (Suc i) ms))"
    by (metis length_append length_Cons Suc_eq_plus1 add.assoc add.commute)
  then show ?thesis by simp
qed

lemma rows_set_column: "rows (set_column c v df) = map (\<lambda>r. r(c := v)) (rows df)"
  by (simp add: set_column_def)

lemma length_rows_convert:
  "length (rows (fst (convert_coordinates_batch L df year))) = length (rows df)"
  unfolding convert_coordinates_batch_def Let_def loc_assign_def
  by (simp add: rows_set_column length_loc_rows split: sum.splits prod.splits)

lemma convert_other_columns:
  assumes "c \<noteq> ''latitude''" "c \<noteq> ''longitude''" "i < length (rows df)"
  shows "(rows (fst (convert_coordinates_batch L df year)) ! i) c = (rows df ! i) c"
  using assms unfolding convert_coordinates_batch_def Let_def loc_assign_def
  by (simp add: rows_set_column length_loc_rows loc_rows_other split: sum.splits prod.splits)

lemma convert_invalid_row:
  assumes "''GeoKoordinataX'' \<in> set (columns df)" "''GeoKoordinataY'' \<in> set (columns df)"
    and "i < length (rows df)"
    and "\<not> valid_mask_of (coerce_column L (map (\<lambda>r. r ''GeoKoordinataX'') (rows df)))
                         (coerce_column L (map (\<lambda>r. r ''GeoKoordinataY'') (rows df))) ! i"
  shows "rows (fst (convert_coordinates_batch L df year)) ! i
         = (rows df ! i)(''latitude'' := NaN, ''longitude'' := NaN)"
  using assms unfolding convert_coordinates_batch_def Let_def loc_assign_def
  by (simp add: rows_set_column length_loc_rows loc_rows_unselected length_valid_mask_of
      length_coerce_column split: sum.splits prod.splits)

lemma convert_error_latitude:
  assumes "Transformation_error e \<in> set (snd (convert_coordinates_batch L df year))"
    and "i < length (rows df)"
  shows "(rows (fst (convert_coordinates_batch L df year)) ! i) ''latitude'' = NaN"
  using assms unfolding convert_coordinates_batch_def Let_def loc_assign_def
  by (simp add: rows_set_column length_loc_rows loc_rows_other split: sum.splits prod.splits if_splits)

lemma convert_valid_row:
  assumes "''GeoKoordinataX'' \<in> set (columns df)" "''GeoKoordinataY'' \<in> set (columns df)"
    and "x_coords = coerce_column L (map (\<lambda>r. r ''GeoKoordinataX'') (rows df))"
    and "y_coords = coerce_column L (map (\<lambda>r. r ''GeoKoordinataY'') (rows df))"
    and "valid_mask = valid_mask_of x_coords y_coords"
    and "transform L (select_valid valid_mask y_coords) (select_valid valid_mask x_coords)
           = Inr (lons, lats)"
    and "length lons = length (filter (\<lambda>m. m) valid_mask)"
    and "length lats = length (filter (\<lambda>m. m) valid_mask)"
    and "i < length (rows df)" and "valid_mask ! i"
  shows "(rows (fst (convert_coordinates_batch L df year)) ! i) ''latitude''
           = Num (lats ! length (filter (\<lambda>m. m) (take i valid_mask)))
       \<and> (rows (fst (convert_coordinates_batch L df year)) ! i) ''longitude''
           = Num (lons ! length (filter (\<lambda>m. m) (take i valid_mask)))"
proof -
  have len: "length valid_mask = length (rows df)"
    using assms(3,4,5) by (simp add: length_valid_mask_of length_coerce_column)
  with assms(9,10) have pos: "filter (\<lambda>m. m) valid_mask \<noteq> []"
    using count_take_less[of i valid_mask] by fastforce
  let ?base = "map (\<lambda>r. r(''latitude'' := NaN, ''longitude'' := NaN)) (rows df)"
  have out: "rows (fst (convert_coordinates_batch L df year))
      = loc_rows valid_mask ''latitude'' lats (loc_rows valid_mask ''longitude'' lons ?base)"
    using assms(1,2,6,7,8) pos
    unfolding convert_coordinates_batch_def Let_def loc_assign_def assms(3,4,5)[symmetric]
    by (simp add: rows_set_column comp_def)
  show ?thesis
    unfolding out using assms(7,8,9,10) len
    by (simp add: loc_rows_selected length_loc_rows loc_rows_other)
qed

lemma strip_not_space: "strip s \<noteq> '' ''"
proof
  assume a: "strip s = '' ''"
  let ?t = "dropWhile py_isspace (rev (dropWhile py_isspace s))"
  from a have "rev ?t = '' ''" by (simp add: strip_def)
  then have t: "?t = '' ''" by (metis rev_singleton_conv)
  then have "?t \<noteq> []" by simp
  then have "\<not> py_isspace (hd ?t)" by (rule hd_dropWhile)
  with t show False by (simp add: py_isspace_def)
qed

lemma strip_all_space: "\<forall>ch \<in> set s. py_isspace ch \<Longrightarrow> strip s = []"
proof -
  assume "\<forall>ch \<in> set s. py_isspace ch"
  then have d: "dropWhile py_isspace s = []" by (induction s) simp_all
  show ?thesis unfolding strip_def d by simp
qed

lemma convert_raise_row:
  assumes "''GeoKoordinataX'' \<in> set (columns df)" "''GeoKoordinataY'' \<in> set (columns df)"
    and "x_coords = coerce_column L (map (\<lambda>r. r ''GeoKoordinataX'') (rows df))"
    and "y_coords = coerce_column L (map (\<lambda>r. r ''GeoKoordinataY'') (rows df))"
    and "valid_mask = valid_mask_of x_coords y_coords"
    and "transform L (select_valid valid_mask y_coords) (select_valid valid_mask x_coords) = Inl e"
    and "i < length (rows df)"
  shows "rows (fst (convert_coordinates_batch L df year)) ! i
         = (rows df ! i)(''latitude'' := NaN, ''longitude'' := NaN)"
  using assms(1,2,6,7) unfolding convert_coordinates_batch_def Let_def assms(3,4,5)
  by (simp add: rows_set_column)

lemma convert_raise_log:
  assumes "''GeoKoordinataX'' \<in> set (columns df)" "''GeoKoordinataY'' \<in> set (columns df)"
    and "x_coords = coerce_column L (map (\<lambda>r. r ''GeoKoordinataX'') (rows df))"
    and "y_coords = coerce_column L (map (\<lambda>r. r ''GeoKoordinataY'') (rows df))"
    and "valid_mask = valid_mask_of x_coords y_coords"
    and "transform L (select_valid valid_mask y_coords) (select_valid valid_mask x_coords) = Inl e"
    and "filter (\<lambda>m. m) valid_mask \<noteq> []"
  shows "snd (convert_coordinates_batch L df year) = [Transformation_error e]"
  using assms(1,2,6,7) unfolding convert_coordinates_batch_def Let_def assms(3,4,5)
  by simp

text \<open>
  C2, as stated: every pair whose components are both numeric and not zero receives a
  latitude and a longitude. In a batch of one such pair, when the transformer raises, the
  exception is caught (line 91) and the pair is left with both fields NaN.
\<close>

theorem failed_transform_leaves_valid_pair_unset_counterexample:
  "coerce_column
     \<lparr>concat_cast = (\<lambda>dfs c v. v), read_csv = (\<lambda>raw enc. None), str_num = (\<lambda>x. []),
      to_numeric = (\<lambda>s. if s = ''500000'' then Some 500000 else if s = ''100000'' then Some 100000 else None),
      transform = (\<lambda>es ns. Inl ''no transformer'')\<rparr>
     [Str ''500000'', Str ''100000''] = [Some 500000, Some 100000]
   \<and> map (\<lambda>r. (r ''latitude'', r ''longitude''))
       (rows (fst (convert_coordinates_batch
     \<lparr>concat_cast = (\<lambda>dfs c v. v), read_csv = (\<lambda>raw enc. None), str_num = (\<lambda>x. []),
      to_numeric = (\<lambda>s. if s = ''500000'' then Some 500000 else if s = ''100000'' then Some 100000 else None),
      transform = (\<lambda>es ns. Inl ''no transformer'')\<rparr>
     \<lparr>columns = [''GeoKoordinataX'', ''GeoKoordinataY''],
      rows = [\<lambda>c. if c = ''GeoKoordinataX'' then Str ''500000''
                  else if c = ''GeoKoordinataY'' then Str ''100000'' else NaN]\<rparr>
     2020))) = [(NaN, NaN)]
   \<and> snd (convert_coordinates_batch
     \<lparr>concat_cast = (\<lambda>dfs c v. v), read_csv = (\<lambda>raw enc. None), str_num = (\<lambda>x. []),
      to_numeric = (\<lambda>s. if s = ''500000'' then Some 500000 else if s = ''100000'' then Some 100000 else None),
      transform = (\<lambda>es ns. Inl ''no transformer'')\<rparr>
     \<lparr>columns = [''GeoKoordinataX'', ''GeoKoordinataY''],
      rows = [\<lambda>c. if c = ''GeoKoordinataX'' then Str ''500000''
                  else if c = ''GeoKoordinataY'' then Str ''100000'' else NaN]\<rparr>
     2020) = [Transformation_error ''no transformer'']"
  by (simp add: coerce_column_def strip_def py_isspace_def astype_str_def
      convert_coordinates_batch_def valid_mask_of_def set_column_def Let_def)

text \<open>
  C2, amended. The conversion keeps the number of rows and changes no column but
  \<^verbatim>\<open>latitude\<close> and \<^verbatim>\<open>longitude\<close>. For the pair in row \<open>i\<close>, with \<open>sx\<close> and \<open>sy\<close> the
  stripped texts of its X and Y: a text of whitespace only strips to the empty text; a
  component coerces to NaN when its stripped text is empty, and to what \<^verbatim>\<open>to_numeric\<close>
  makes of the stripped text otherwise. When either stripped text is empty, is not
  numeric or is the number zero, the pair is outside the mask and both output fields of the
  row are NaN. In every other case the pair is in the mask, its X and Y are passed to the
  batch transformation at its rank among the selected rows, and, when the transformation
  returns one longitude and one latitude per selected pair, row \<open>i\<close> holds the latitude
  and longitude at that rank. When the transformation raises, both output fields of
  every row are NaN, and the exception is printed.
\<close>

theorem conversion_by_row:
  assumes "''GeoKoordinataX'' \<in> set (columns df)" and "''GeoKoordinataY'' \<in> set (columns df)"
    and "x_coords = coerce_column L (map (\<lambda>r. r ''GeoKoordinataX'') (rows df))"
    and "y_coords = coerce_column L (map (\<lambda>r. r ''GeoKoordinataY'') (rows df))"
    and "valid_mask = valid_mask_of x_coords y_coords"
    and "out = rows (fst (convert_coordinates_batch L df year))"
    and "i < length (rows df)"
    and "sx = strip (astype_str L ((rows df ! i) ''GeoKoordinataX''))"
    and "sy = strip (astype_str L ((rows df ! i) ''GeoKoordinataY''))"
  shows "length out = length (rows df)
     \<and> (\<forall>c. c \<noteq> ''latitude'' \<and> c \<noteq> ''longitude'' \<longrightarrow> (out ! i) c = (rows df ! i) c)
     \<and> ((\<forall>ch \<in> set (astype_str L ((rows df ! i) ''GeoKoordinataX'')). py_isspace ch) \<longrightarrow> sx = [])
     \<and> ((\<forall>ch \<in> set (astype_str L ((rows df ! i) ''GeoKoordinataY'')). py_isspace ch) \<longrightarrow> sy = [])
     \<and> x_coords ! i = (if sx = [] then None else to_numeric L sx)
     \<and> y_coords ! i = (if sy = [] then None else to_numeric L sy)
     \<and> (sx = [] \<or> to_numeric L sx = None \<or> to_numeric L sx = Some 0
          \<or> sy = [] \<or> to_numeric L sy = None \<or> to_numeric L sy = Some 0
          \<longrightarrow> \<not> valid_mask ! i \<and> (out ! i) ''latitude'' = NaN \<and> (out ! i) ''longitude'' = NaN)
     \<and> (\<forall>x y lons lats.
          sx \<noteq> [] \<and> to_numeric L sx = Some x \<and> x \<noteq> 0
          \<and> sy \<noteq> [] \<and> to_numeric L sy = Some y \<and> y \<noteq> 0
          \<and> transform L (select_valid valid_mask y_coords) (select_valid valid_mask x_coords)
                = Inr (lons, lats)
          \<and> length lons = length (filter (\<lambda>m. m) valid_mask)
          \<and> length lats = length (filter (\<lambda>m. m) valid_mask)
          \<longrightarrow> valid_mask ! i
              \<and> select_valid valid_mask x_coords ! length (filter (\<lambda>m. m) (take i valid_mask)) = x
              \<and> select_valid valid_mask y_coords ! length (filter (\<lambda>m. m) (take i valid_mask)) = y
              \<and> (out ! i) ''latitude'' = Num (lats ! length (filter (\<lambda>m. m) (take i valid_mask)))
              \<and> (out ! i) ''longitude'' = Num (lons ! length (filter (\<lambda>m. m) (take i valid_mask))))
     \<and> (\<forall>e. transform L (select_valid valid_mask y_coords) (select_valid valid_mask x_coords) = Inl e
          \<longrightarrow> (out ! i) ''latitude'' = NaN \<and> (out ! i) ''longitude'' = NaN
              \<and> (filter (\<lambda>m. m) valid_mask \<noteq> [] \<longrightarrow>
                    snd (convert_coordinates_batch L df year) = [Transformation_error e]))"
proof -
  have lx: "length x_coords = length (rows df)" and ly: "length y_coords = length (rows df)"
    using assms(3,4) by (simp_all add: length_coerce_column)
  have len: "length x_coords = length y_coords"
    using lx ly by simp
  have lm: "length valid_mask = length (rows df)"
    unfolding assms(5) using lx ly by (simp add: length_valid_mask_of)
  have m: "valid_mask ! i =
      (\<exists>x y. x_coords ! i = Some x \<and> y_coords ! i = Some y \<and> x \<noteq> 0 \<and> y \<noteq> 0)"
    unfolding assms(5) using lx ly assms(7) by (simp add: valid_mask_of_nth)
  have a: "length out = length (rows df)"
    unfolding assms(6) by (rule length_rows_convert)
  have b: "\<forall>c. c \<noteq> ''latitude'' \<and> c \<noteq> ''longitude'' \<longrightarrow> (out ! i) c = (rows df ! i) c"
    unfolding assms(6) using assms(7) by (simp add: convert_other_columns)
  have wx: "(\<forall>ch \<in> set (astype_str L ((rows df ! i) ''GeoKoordinataX'')). py_isspace ch) \<longrightarrow> sx = []"
    unfolding assms(8) using strip_all_space by blast
  have wy: "(\<forall>ch \<in> set (astype_str L ((rows df ! i) ''GeoKoordinataY'')). py_isspace ch) \<longrightarrow> sy = []"
    unfolding assms(9) using strip_all_space by blast
  have cx: "x_coords ! i = (if sx = [] then None else to_numeric L sx)"
    unfolding assms(3,8) using assms(7) by (simp add: coerce_column_def strip_not_space)
  have cy: "y_coords ! i = (if sy = [] then None else to_numeric L sy)"
    unfolding assms(4,9) using assms(7) by (simp add: coerce_column_def strip_not_space)
  have e: "\<not> valid_mask ! i \<and> (out ! i) ''latitude'' = NaN \<and> (out ! i) ''longitude'' = NaN"
    if "sx = [] \<or> to_numeric L sx = None \<or> to_numeric L sx = Some 0
          \<or> sy = [] \<or> to_numeric L sy = None \<or> to_numeric L sy = Some 0"
  proof -
    from that m cx cy have n: "\<not> valid_mask ! i" by (auto split: if_splits)
    then have "out ! i = (rows df ! i)(''latitude'' := NaN, ''longitude'' := NaN)"
      unfolding assms(6) using assms(1,2,7) unfolding assms(5,3,4)
      by (intro convert_invalid_row)
    with n show ?thesis by simp
  qed
  have f: "valid_mask ! i
      \<and> select_valid valid_mask x_coords ! length (filter (\<lambda>m. m) (take i valid_mask)) = x
      \<and> select_valid valid_mask y_coords ! length (filter (\<lambda>m. m) (take i valid_mask)) = y
      \<and> (out ! i) ''latitude'' = Num (lats ! length (filter (\<lambda>m. m) (take i valid_mask)))
      \<and> (out ! i) ''longitude'' = Num (lons ! length (filter (\<lambda>m. m) (take i valid_mask)))"
    if h: "sx \<noteq> [] \<and> to_numeric L sx = Some x \<and> x \<noteq> 0
          \<and> sy \<noteq> [] \<and> to_numeric L sy = Some y \<and> y \<noteq> 0
          \<and> transform L (select_valid valid_mask y_coords) (select_valid valid_mask x_coords)
                = Inr (lons, lats)
          \<and> length lons = length (filter (\<lambda>m. m) valid_mask)
          \<and> length lats = length (filter (\<lambda>m. m) valid_mask)" for x y lons lats
  proof -
    from h cx cy have xi: "x_coords ! i = Some x" and yi: "y_coords ! i = Some y" by simp_all
    with h m have v: "valid_mask ! i" by simp
    have il: "i < length valid_mask" using lm assms(7) by simp
    have nx: "select_valid valid_mask x_coords ! length (filter (\<lambda>m. m) (take i valid_mask)) = x"
      unfolding assms(5)
      using select_valid_nth[OF valid_mask_all2_left[OF len] _ _ xi] il v
      unfolding assms(5) by simp
    have ny: "select_valid valid_mask y_coords ! length (filter (\<lambda>m. m) (take i valid_mask)) = y"
      unfolding assms(5)
      using select_valid_nth[OF valid_mask_all2_right[OF len] _ _ yi] il v
      unfolding assms(5) by simp
    from convert_valid_row[OF assms(1,2,3,4,5) _ _ _ assms(7) v, of lons lats year] h
    have "(out ! i) ''latitude'' = Num (lats ! length (filter (\<lambda>m. m) (take i valid_mask)))
      \<and> (out ! i) ''longitude'' = Num (lons ! length (filter (\<lambda>m. m) (take i valid_mask)))"
      unfolding assms(6) by simp
    with v nx ny show ?thesis by simp
  qed
  have r: "(out ! i) ''latitude'' = NaN \<and> (out ! i) ''longitude'' = NaN
              \<and> (filter (\<lambda>m. m) valid_mask \<noteq> [] \<longrightarrow>
                    snd (convert_coordinates_batch L df year) = [Transformation_error e])"
    if h: "transform L (select_valid valid_mask y_coords) (select_valid valid_mask x_coords) = Inl e"
    for e
  proof -
    have "out ! i = (rows df ! i)(''latitude'' := NaN, ''longitude'' := NaN)"
      unfolding assms(6) by (rule convert_raise_row[OF assms(1,2,3,4,5) h assms(7)])
    moreover have "snd (convert_coordinates_batch L df year) = [Transformation_error e]"
      if "filter (\<lambda>m. m) valid_mask \<noteq> []"
      by (rule convert_raise_log[OF assms(1,2,3,4,5) h that])
    ultimately show ?thesis by simp
  qed
  from a b wx wy cx cy e f r show ?thesis by blast
qed

theorem conversion_by_row_witness:
  "map (\<lambda>r. (r ''latitude'', r ''longitude''))
     (rows (fst (convert_coordinates_batch
         \<lparr>concat_cast = (\<lambda>dfs c v. v), read_csv = (\<lambda>raw enc. None), str_num = (\<lambda>x. []),
          to_numeric = (\<lambda>s. if s = ''500000'' then Some 500000 else if s = ''100000'' then Some 100000
                            else if s = ''0'' then Some 0 else None),
          transform = (\<lambda>es ns. Inr (map (\<lambda>e. 14.5) es, map (\<lambda>n. 46.05) ns))\<rparr>
         \<lparr>columns = [''GeoKoordinataX'', ''GeoKoordinataY''],
          rows = [\<lambda>c. if c = ''GeoKoordinataX'' then Str ''500000''
                      else if c = ''GeoKoordinataY'' then Str ''100000'' else NaN,
                  \<lambda>c. if c = ''GeoKoordinataX'' then Str ''  ''
                      else if c = ''GeoKoordinataY'' then Str ''100000'' else NaN,
                  \<lambda>c. if c = ''GeoKoordinataX'' then Str ''0''
                      else if c = ''GeoKoordinataY'' then Str ''100000'' else NaN]\<rparr>
         2020)))
   = [(Num 46.05, Num 14.5), (NaN, NaN), (NaN, NaN)]"
  using conversion_by_row
    [where L = "\<lparr>concat_cast = (\<lambda>dfs c v. v), read_csv = (\<lambda>raw enc. None), str_num = (\<lambda>x. []),
          to_numeric = (\<lambda>s. if s = ''500000'' then Some 500000 else if s = ''100000'' then Some 100000
                            else if s = ''0'' then Some 0 else None),
          transform = (\<lambda>es ns. Inr (map (\<lambda>e. 14.5) es, map (\<lambda>n. 46.05) ns))\<rparr>"
       and df = "\<lparr>columns = [''GeoKoordinataX'', ''GeoKoordinataY''],
          rows = [\<lambda>c. if c = ''GeoKoordinataX'' then Str ''500000''
                      else if c = ''GeoKoordinataY'' then Str ''100000'' else NaN,
                  \<lambda>c. if c = ''GeoKoordinataX'' then Str ''  ''
                      else if c = ''GeoKoordinataY'' then Str ''100000'' else NaN,
                  \<lambda>c. if c = ''GeoKoordinataX'' then Str ''0''
                      else if c = ''GeoKoordinataY'' then Str ''100000'' else NaN]\<rparr>"
       and i = 0 and year = 2020, OF _ _ refl refl refl refl _ refl refl]
  by (simp add: coerce_column_def strip_def py_isspace_def astype_str_def
      convert_coordinates_batch_def valid_mask_of_def set_column_def loc_assign_def Let_def)

text \<open>
  C6. Let the transformer work point by point: \<open>project e n\<close> is the longitude and
  latitude of the point with first (easting) operand \<open>e\<close> and second (northing) operand
  \<open>n\<close>. Then a row whose X and Y are numbers other than zero receives the longitude and
  latitude of \<open>project Y X\<close>: the source's Y is the first operand and its X the second.
\<close>

theorem y_is_easting_operand:
  assumes "''GeoKoordinataX'' \<in> set (columns df)" and "''GeoKoordinataY'' \<in> set (columns df)"
    and "x_coords = coerce_column L (map (\<lambda>r. r ''GeoKoordinataX'') (rows df))"
    and "y_coords = coerce_column L (map (\<lambda>r. r ''GeoKoordinataY'') (rows df))"
    and "\<forall>eastings northings. length eastings = length northings \<longrightarrow>
           transform L eastings northings =
             Inr (map (\<lambda>(e, n). fst (project e n)) (zip eastings northings),
                  map (\<lambda>(e, n). snd (project e n)) (zip eastings northings))"
    and "i < length (rows df)"
    and "x_coords ! i = Some x" and "x \<noteq> 0" and "y_coords ! i = Some y" and "y \<noteq> 0"
  shows "(rows (fst (convert_coordinates_batch L df year)) ! i) ''longitude'' = Num (fst (project y x))
       \<and> (rows (fst (convert_coordinates_batch L df year)) ! i) ''latitude'' = Num (snd (project y x))"
proof -
  let ?mk = "valid_mask_of x_coords y_coords"
  let ?vx = "select_valid ?mk x_coords" and ?vy = "select_valid ?mk y_coords"
  let ?k = "length (filter (\<lambda>m. m) (take i ?mk))"
  have len: "length x_coords = length y_coords" and lx: "length x_coords = length (rows df)"
    using assms(3,4) by (simp_all add: length_coerce_column)
  have lm: "length ?mk = length (rows df)"
    using len lx by (simp add: length_valid_mask_of)
  have v: "?mk ! i"
    using assms(6-10) len lx by (simp add: valid_mask_of_nth)
  have cx: "length ?vx = length (filter (\<lambda>m. m) ?mk)"
    by (rule select_valid_length[OF valid_mask_all2_left[OF len]])
  have cy: "length ?vy = length (filter (\<lambda>m. m) ?mk)"
    by (rule select_valid_length[OF valid_mask_all2_right[OF len]])
  have k: "?k < length (filter (\<lambda>m. m) ?mk)"
    using count_take_less[of i ?mk] v lm assms(6) by simp
  have nx: "?vx ! ?k = x"
    using select_valid_nth[OF valid_mask_all2_left[OF len] _ v assms(7)] lm assms(6) by simp
  have ny: "?vy ! ?k = y"
    using select_valid_nth[OF valid_mask_all2_right[OF len] _ v assms(9)] lm assms(6) by simp
  let ?lons = "map (\<lambda>(e, n). fst (project e n)) (zip ?vy ?vx)"
  let ?lats = "map (\<lambda>(e, n). snd (project e n)) (zip ?vy ?vx)"
  have tr: "transform L ?vy ?vx = Inr (?lons, ?lats)"
    using assms(5) cx cy by simp
  have "(rows (fst (convert_coordinates_batch L df year)) ! i) ''latitude'' = Num (?lats ! ?k)
      \<and> (rows (fst (convert_coordinates_batch L df year)) ! i) ''longitude'' = Num (?lons ! ?k)"
    by (rule convert_valid_row[OF assms(1,2,3,4) refl tr _ _ assms(6) v]) (simp_all add: cx cy)
  moreover have "?lons ! ?k = fst (project y x)" and "?lats ! ?k = snd (project y x)"
    using k cx cy nx ny by simp_all
  ultimately show ?thesis by simp
qed

theorem y_is_easting_operand_witness:
  "map (\<lambda>r. (r ''longitude'', r ''latitude''))
     (rows (fst (convert_coordinates_batch
        \<lparr>concat_cast = (\<lambda>dfs c v. v), read_csv = (\<lambda>raw enc. None), str_num = (\<lambda>x. []),
          to_numeric = (\<lambda>s. if s = ''100000'' then Some 100000 else if s = ''500000'' then Some 500000 else None),
          transform = (\<lambda>es ns. Inr (map (\<lambda>(e, n). fst (e, n)) (zip es ns),
                                    map (\<lambda>(e, n). snd (e, n)) (zip es ns)))\<rparr>
        \<lparr>columns = [''GeoKoordinataX'', ''GeoKoordinataY''],
          rows = [\<lambda>c. if c = ''GeoKoordinataX'' then Str ''100000''
                      else if c = ''GeoKoordinataY'' then Str ''500000'' else NaN]\<rparr>
        2020)))
   = [(Num 500000, Num 100000)]"
  using y_is_easting_operand
    [where L = "\<lparr>concat_cast = (\<lambda>dfs c v. v), read_csv = (\<lambda>raw enc. None), str_num = (\<lambda>x. []),
          to_numeric = (\<lambda>s. if s = ''100000'' then Some 100000 else if s = ''500000'' then Some 500000 else None),
          transform = (\<lambda>es ns. Inr (map (\<lambda>(e, n). fst (e, n)) (zip es ns),
                                    map (\<lambda>(e, n). snd (e, n)) (zip es ns)))\<rparr>"
       and df = "\<lparr>columns = [''GeoKoordinataX'', ''GeoKoordinataY''],
          rows = [\<lambda>c. if c = ''GeoKoordinataX'' then Str ''100000''
                      else if c = ''GeoKoordinataY'' then Str ''500000'' else NaN]\<rparr>"
       and project = "\<lambda>e n. (e, n)" and i = 0 and year = 2020 and x = 100000 and y = 500000,
     OF _ _ refl refl]
  by (simp add: coerce_column_def strip_def py_isspace_def astype_str_def
      convert_coordinates_batch_def valid_mask_of_def set_column_def loc_assign_def Let_def)

subsection \<open>One file: failures and bounds\<close>

lemma process_file_geo:
  assumes "\<not> skip_by_year cfg year"
    and "first_success (read_csv L raw) loader_encodings = Some (enc, df0)"
    and "d = set_column ''year'' (Num (of_int year)) df0"
    and "''GeoKoordinataX'' \<in> set (columns d)" and "''GeoKoordinataY'' \<in> set (columns d)"
    and "kept = dropna [''latitude'', ''longitude''] (fst (convert_coordinates_batch L d year))"
  shows "process_file L cfg raw year =
     (Some kept,
      [Processing year, Converting] @ snd (convert_coordinates_batch L d year) @
      [Loaded (length (rows kept)) (length (rows d) - length (rows kept))] @
      (if length (filter outside_slovenia (rows kept)) > 0
       then [Bounds_warning (length (filter outside_slovenia (rows kept)))] else []))"
  using assms(1,2,4,5) unfolding assms(6) assms(3)
  by (simp add: process_file_def Let_def split: prod.splits)

lemma convert_log_cases:
  "snd (convert_coordinates_batch L df year) = []
   \<or> snd (convert_coordinates_batch L df year) = [No_valid_coordinates]
   \<or> (\<exists>e. snd (convert_coordinates_batch L df year) = [Transformation_error e])"
  unfolding convert_coordinates_batch_def Let_def
  by (simp split: sum.splits prod.splits)

lemma convert_error_has_columns:
  "Transformation_error e \<in> set (snd (convert_coordinates_batch L df year)) \<Longrightarrow>
   ''GeoKoordinataX'' \<in> set (columns df) \<and> ''GeoKoordinataY'' \<in> set (columns df)"
  unfolding convert_coordinates_batch_def Let_def
  by (simp split: if_splits)

lemma convert_raise_longitude:
  assumes "x_coords = coerce_column L (map (\<lambda>r. r ''GeoKoordinataX'') (rows df))"
    and "y_coords = coerce_column L (map (\<lambda>r. r ''GeoKoordinataY'') (rows df))"
    and "valid_mask = valid_mask_of x_coords y_coords"
    and "transform L (select_valid valid_mask y_coords) (select_valid valid_mask x_coords) = Inl e"
    and "Transformation_error e' \<in> set (snd (convert_coordinates_batch L df year))"
    and "i < length (rows df)"
  shows "(rows (fst (convert_coordinates_batch L df year)) ! i) ''longitude'' = NaN"
  using assms(4,5,6) unfolding convert_coordinates_batch_def Let_def assms(1,2,3)
  by (simp add: rows_set_column split: if_splits)


text \<open>
  C4, as stated: when the conversion raises, the file's rows can still contribute to the
  merged dataset. A file of one row with valid coordinates, read while the transformer
  raises: \<^verbatim>\<open>process_file\<close> returns a frame without rows and reports one row skipped, and
  the merge of that file alone succeeds and writes no row.
\<close>

theorem failed_transform_file_has_no_rows_counterexample:
  "map_option (\<lambda>p. length (rows (snd p))) (first_success (read_csv
        \<lparr>concat_cast = (\<lambda>dfs c v. v), read_csv = (\<lambda>raw enc. Some
            \<lparr>columns = [''GeoKoordinataX'', ''GeoKoordinataY''],
              rows = [\<lambda>c. if c = ''GeoKoordinataX'' then Str ''500000''
                          else if c = ''GeoKoordinataY'' then Str ''100000'' else NaN]\<rparr>),
          str_num = (\<lambda>x. []),
          to_numeric = (\<lambda>s. if s = ''500000'' then Some 500000 else if s = ''100000'' then Some 100000 else None),
          transform = (\<lambda>es ns. Inl ''no transformer'')\<rparr>
        []) loader_encodings) = Some 1
   \<and> map_option rows (fst (process_file
        \<lparr>concat_cast = (\<lambda>dfs c v. v), read_csv = (\<lambda>raw enc. Some
            \<lparr>columns = [''GeoKoordinataX'', ''GeoKoordinataY''],
              rows = [\<lambda>c. if c = ''GeoKoordinataX'' then Str ''500000''
                          else if c = ''GeoKoordinataY'' then Str ''100000'' else NaN]\<rparr>),
          str_num = (\<lambda>x. []),
          to_numeric = (\<lambda>s. if s = ''500000'' then Some 500000 else if s = ''100000'' then Some 100000 else None),
          transform = (\<lambda>es ns. Inl ''no transformer'')\<rparr>
        default_config [] 2020)) = Some []
   \<and> snd (process_file
        \<lparr>concat_cast = (\<lambda>dfs c v. v), read_csv = (\<lambda>raw enc. Some
            \<lparr>columns = [''GeoKoordinataX'', ''GeoKoordinataY''],
              rows = [\<lambda>c. if c = ''GeoKoordinataX'' then Str ''500000''
                          else if c = ''GeoKoordinataY'' then Str ''100000'' else NaN]\<rparr>),
          str_num = (\<lambda>x. []),
          to_numeric = (\<lambda>s. if s = ''500000'' then Some 500000 else if s = ''100000'' then Some 100000 else None),
          transform = (\<lambda>es ns. Inl ''no transformer'')\<rparr>
        default_config [] 2020)
       = [Processing 2020, Converting, Transformation_error ''no transformer'', Loaded 0 1]
   \<and> fst (merge_all_files
        \<lparr>concat_cast = (\<lambda>dfs c v. v), read_csv = (\<lambda>raw enc. Some
            \<lparr>columns = [''GeoKoordinataX'', ''GeoKoordinataY''],
              rows = [\<lambda>c. if c = ''GeoKoordinataX'' then Str ''500000''
                          else if c = ''GeoKoordinataY'' then Str ''100000'' else NaN]\<rparr>),
          str_num = (\<lambda>x. []),
          to_numeric = (\<lambda>s. if s = ''500000'' then Some 500000 else if s = ''100000'' then Some 100000 else None),
          transform = (\<lambda>es ns. Inl ''no transformer'')\<rparr>
        default_config
        \<lparr>folder_exists = True, listing = [''pn2020.csv''], file_bytes = (\<lambda>n. [])\<rparr>) = True
   \<and> map_option rows (snd (merge_all_files
        \<lparr>concat_cast = (\<lambda>dfs c v. v), read_csv = (\<lambda>raw enc. Some
            \<lparr>columns = [''GeoKoordinataX'', ''GeoKoordinataY''],
              rows = [\<lambda>c. if c = ''GeoKoordinataX'' then Str ''500000''
                          else if c = ''GeoKoordinataY'' then Str ''100000'' else NaN]\<rparr>),
          str_num = (\<lambda>x. []),
          to_numeric = (\<lambda>s. if s = ''500000'' then Some 500000 else if s = ''100000'' then Some 100000 else None),
          transform = (\<lambda>es ns. Inl ''no transformer'')\<rparr>
        default_config
        \<lparr>folder_exists = True, listing = [''pn2020.csv''], file_bytes = (\<lambda>n. [])\<rparr>)) = Some []"
  by (simp add: process_file_def skip_by_year_def default_config_def loader_encodings_def
      coerce_column_def strip_def py_isspace_def astype_str_def dropna_def
      convert_coordinates_batch_def valid_mask_of_def set_column_def Let_def
      merge_all_files_def glob_pn_csv_def is_digit_def digit_val_def merge_frames_def
      pd_concat_def drop_duplicates_def)

text \<open>
  C4, amended. When the conversion of a file's coordinates raises, the error is caught
  and printed once, every row of the converted frame has its latitude unset (and its
  longitude too when it is the transformer that raised), and \<^verbatim>\<open>process_file\<close> still
  returns a frame for the file, so the file counts as processed; but that frame has no
  rows, all of them having been dropped for their missing coordinates.
\<close>

theorem transform_failure_keeps_file_without_rows:
  assumes "\<not> skip_by_year cfg year"
    and "first_success (read_csv L raw) loader_encodings = Some (enc, df0)"
    and "d = set_column ''year'' (Num (of_int year)) df0"
    and "x_coords = coerce_column L (map (\<lambda>r. r ''GeoKoordinataX'') (rows d))"
    and "y_coords = coerce_column L (map (\<lambda>r. r ''GeoKoordinataY'') (rows d))"
    and "valid_mask = valid_mask_of x_coords y_coords"
    and "Transformation_error e \<in> set (snd (convert_coordinates_batch L d year))"
  shows "(\<forall>r \<in> set (rows (fst (convert_coordinates_batch L d year))). r ''latitude'' = NaN)
     \<and> (isl (transform L (select_valid valid_mask y_coords) (select_valid valid_mask x_coords)) \<longrightarrow>
          (\<forall>r \<in> set (rows (fst (convert_coordinates_batch L d year))). r ''longitude'' = NaN))
     \<and> (\<exists>df. process_file L cfg raw year =
                (Some df, [Processing year, Converting, Transformation_error e,
                           Loaded 0 (length (rows df0))])
              \<and> rows df = [])"
proof -
  let ?out = "fst (convert_coordinates_batch L d year)"
  have len: "length (rows ?out) = length (rows d)"
    by (rule length_rows_convert)
  have lat: "\<forall>r \<in> set (rows ?out). r ''latitude'' = NaN"
  proof
    fix r assume "r \<in> set (rows ?out)"
    then obtain i where "i < length (rows ?out)" and "r = rows ?out ! i"
      by (auto simp: in_set_conv_nth)
    with len convert_error_latitude[OF assms(7), of i] show "r ''latitude'' = NaN" by simp
  qed
  have lon: "\<forall>r \<in> set (rows ?out). r ''longitude'' = NaN"
    if "isl (transform L (select_valid valid_mask y_coords) (select_valid valid_mask x_coords))"
  proof
    fix r assume "r \<in> set (rows ?out)"
    then obtain i where i: "i < length (rows ?out)" and r: "r = rows ?out ! i"
      by (auto simp: in_set_conv_nth)
    from that obtain e' where
      "transform L (select_valid valid_mask y_coords) (select_valid valid_mask x_coords) = Inl e'"
      by (auto simp: isl_def)
    from convert_raise_longitude[OF assms(4,5,6) this assms(7), of i] i len r
    show "r ''longitude'' = NaN" by simp
  qed
  have geo: "''GeoKoordinataX'' \<in> set (columns d)" "''GeoKoordinataY'' \<in> set (columns d)"
    using convert_error_has_columns[OF assms(7)] by simp_all
  have log: "snd (convert_coordinates_batch L d year) = [Transformation_error e]"
    using convert_log_cases[of L d year] assms(7) by auto
  let ?kept = "dropna [''latitude'', ''longitude''] ?out"
  have empty: "rows ?kept = []"
    using lat by (auto simp: dropna_def filter_empty_conv)
  have "length (rows d) = length (rows df0)"
    unfolding assms(3) by (simp add: rows_set_column)
  with process_file_geo[OF assms(1,2,3) geo refl] log empty
  have "process_file L cfg raw year =
      (Some ?kept, [Processing year, Converting, Transformation_error e,
                    Loaded 0 (length (rows df0))])"
    by simp
  with empty lat lon show ?thesis by blast
qed


theorem transform_failure_keeps_file_without_rows_witness:
  "process_file
        \<lparr>concat_cast = (\<lambda>dfs c v. v), read_csv = (\<lambda>raw enc. Some
            \<lparr>columns = [''GeoKoordinataX'', ''GeoKoordinataY''],
              rows = [\<lambda>c. if c = ''GeoKoordinataX'' then Str ''500000''
                          else if c = ''GeoKoordinataY'' then Str ''100000'' else NaN]\<rparr>),
          str_num = (\<lambda>x. []),
          to_numeric = (\<lambda>s. if s = ''500000'' then Some 500000 else if s = ''100000'' then Some 100000 else None),
          transform = (\<lambda>es ns. Inl ''no transformer'')\<rparr>
        default_config [] 2020
   = (Some \<lparr>columns = [''GeoKoordinataX'', ''GeoKoordinataY'', ''year'', ''latitude'', ''longitude''],
            rows = []\<rparr>,
      [Processing 2020, Converting, Transformation_error ''no transformer'', Loaded 0 1])"
  using transform_failure_keeps_file_without_rows
    [where L = "\<lparr>concat_cast = (\<lambda>dfs c v. v), read_csv = (\<lambda>raw enc. Some
            \<lparr>columns = [''GeoKoordinataX'', ''GeoKoordinataY''],
              rows = [\<lambda>c. if c = ''GeoKoordinataX'' then Str ''500000''
                          else if c = ''GeoKoordinataY'' then Str ''100000'' else NaN]\<rparr>),
          str_num = (\<lambda>x. []),
          to_numeric = (\<lambda>s. if s = ''500000'' then Some 500000 else if s = ''100000'' then Some 100000 else None),
          transform = (\<lambda>es ns. Inl ''no transformer'')\<rparr>"
       and cfg = default_config and raw = "[]" and year = 2020 and enc = "''utf-8''"
       and e = "''no transformer''"
       and ?df0.0 = "\<lparr>columns = [''GeoKoordinataX'', ''GeoKoordinataY''],
              rows = [\<lambda>c. if c = ''GeoKoordinataX'' then Str ''500000''
                          else if c = ''GeoKoordinataY'' then Str ''100000'' else NaN]\<rparr>", OF _ _ refl refl refl refl]
  by (simp add: process_file_def skip_by_year_def default_config_def loader_encodings_def
      coerce_column_def strip_def py_isspace_def astype_str_def dropna_def
      convert_coordinates_batch_def valid_mask_of_def set_column_def Let_def)




subsection \<open>Export: which rows, which fields\<close>










end
